theory Spec2Isabelle
  imports Main "HOL-Library.Sublist"
begin

section \<open>Data model\<close>

text \<open>
  The executor of \<^verbatim>\<open>executor/linux/step.go\<close> and the volume operations of
  \<^verbatim>\<open>runtime/kubernetes/volume.go\<close>. Bytes are \<^typ>\<open>char\<close> (8 bits), a byte slice
  and a Go string are both \<^typ>\<open>string\<close>. A Go \<^verbatim>\<open>error\<close> is its message; \<^verbatim>\<open>nil\<close> is
  \<^term>\<open>None\<close> of \<open>error option\<close>.

  Pointers and maps the code dereferences without a check (the receiver, the container,
  its \<^verbatim>\<open>Environment\<close> map, the API client) are taken as allocated, as the compiler and
  the executor's constructor produce them.
\<close>

type_synonym bytes = "char list"

definition LF :: char where
  "LF = CHR 0x0A"

definition CR :: char where
  "CR = CHR 0x0D"

datatype error = Err string

fun Error :: "error \<Rightarrow> string" where
  "Error (Err m) = m"

text \<open>\<^verbatim>\<open>fmt.Errorf("<prefix>%v", err)\<close>\<close>

definition Errorf :: "string \<Rightarrow> error \<Rightarrow> error" where
  "Errorf msg e = Err (msg @ Error e)"

text \<open>The levels of the logrus logger.\<close>

datatype level = TraceLevel | DebugLevel | InfoLevel | WarnLevel | ErrorLevel

text \<open>\<^verbatim>\<open>pipeline.Container\<close>: the fields the executor reads or writes.\<close>

record Container =
  ID :: string
  Name :: string
  Number :: int
  Detach :: bool
  Environment :: "string \<rightharpoonup> string"

text \<open>\<^verbatim>\<open>library.Step\<close>: every field is a pointer, unset in \<^verbatim>\<open>new(library.Step)\<close>.\<close>

record Step =
  Step_Name :: "string option"
  Step_Number :: "int option"
  Step_Status :: "string option"
  Step_Started :: "int option"
  Step_Host :: "string option"
  Step_Runtime :: "string option"
  Step_Distribution :: "string option"

definition new_Step :: Step where
  "new_Step = \<lparr>Step_Name = None, Step_Number = None, Step_Status = None, Step_Started = None,
     Step_Host = None, Step_Runtime = None, Step_Distribution = None\<rparr>"

text \<open>\<^verbatim>\<open>s.GetNumber()\<close>: the zero value when the field is unset.\<close>

definition GetNumber :: "Step \<Rightarrow> int" where
  "GetNumber s = (case Step_Number s of None \<Rightarrow> 0 | Some n \<Rightarrow> n)"

definition StatusRunning :: string where
  "StatusRunning = ''running''"

definition StatusSuccess :: string where
  "StatusSuccess = ''success''"

text \<open>\<^verbatim>\<open>library.Log\<close>: \<^verbatim>\<open>GetData\<close> of an unset field is the empty slice.\<close>

record Log =
  Log_Data :: bytes

record Repo =
  Repo_Org :: string
  Repo_Name :: string

record Build =
  Build_Number :: int

text \<open>\<^verbatim>\<open>pipeline.Build\<close>, handed to the runtime as it is.\<close>

record pipeline_Build =
  pipeline_ID :: string

section \<open>Collaborators\<close>

text \<open>
  The runtime engine, the API client and the library functions are not part of the two
  files: they are parameters. Each call takes the state of the outside world \<open>'w\<close> and
  returns the new one; a runtime call gets the container by pointer and so returns it too.
  \<^verbatim>\<open>TailContainer\<close> yields the bytes the stream delivers until it closes.
\<close>

record 'w runtime_Engine =
  SetupContainer :: "Container \<Rightarrow> 'w \<Rightarrow> (error option \<times> Container) \<times> 'w"
  RunContainer :: "pipeline_Build \<Rightarrow> Container \<Rightarrow> 'w \<Rightarrow> (error option \<times> Container) \<times> 'w"
  TailContainer :: "Container \<Rightarrow> 'w \<Rightarrow> (error + bytes) \<times> 'w"
  WaitContainer :: "Container \<Rightarrow> 'w \<Rightarrow> (error option \<times> Container) \<times> 'w"
  InspectContainer :: "Container \<Rightarrow> 'w \<Rightarrow> (error option \<times> Container) \<times> 'w"
  RemoveContainer :: "Container \<Rightarrow> 'w \<Rightarrow> (error option \<times> Container) \<times> 'w"

record 'w vela_Client =
  Step_Update :: "string \<Rightarrow> string \<Rightarrow> int \<Rightarrow> Step \<Rightarrow> 'w \<Rightarrow> (Step \<times> error option) \<times> 'w"
  Log_GetStep :: "string \<Rightarrow> string \<Rightarrow> int \<Rightarrow> int \<Rightarrow> 'w \<Rightarrow> (Log \<times> error option) \<times> 'w"
  Log_UpdateStep :: "string \<Rightarrow> string \<Rightarrow> int \<Rightarrow> int \<Rightarrow> Log \<Rightarrow> 'w \<Rightarrow> (Log \<times> error option) \<times> 'w"

text \<open>
  \<^verbatim>\<open>version.Version.String()\<close>, \<^verbatim>\<open>time.Now().UTC().Unix()\<close>, \<^verbatim>\<open>injectSecrets\<close>,
  \<^verbatim>\<open>json.Marshal\<close>, \<^verbatim>\<open>json.Unmarshal\<close> (into the existing container),
  \<^verbatim>\<open>envsubst.Eval\<close> and \<^verbatim>\<open>fmt.Sprintf("%q", _)\<close>.
\<close>

record 'w Lib =
  version_String :: string
  time_Now_Unix :: "'w \<Rightarrow> int"
  injectSecrets :: "Container \<Rightarrow> (string \<rightharpoonup> string) \<Rightarrow> error option \<times> Container"
  json_Marshal :: "Container \<Rightarrow> error + string"
  json_Unmarshal :: "string \<Rightarrow> Container \<Rightarrow> error option \<times> Container"
  envsubst_Eval :: "string \<Rightarrow> (string \<Rightarrow> string) \<Rightarrow> error + string"
  Sprintf_q :: "string \<Rightarrow> string"

text \<open>The executor client: its fields, and the outside world it acts on.\<close>

record 'w client =
  Hostname :: string
  Secrets :: "string \<rightharpoonup> string"
  Runtime :: "'w runtime_Engine"
  Vela :: "'w vela_Client"
  build :: Build
  repo :: Repo
  pipeline :: pipeline_Build
  steps :: "string \<rightharpoonup> Step"
  stepLogs :: "string \<rightharpoonup> Log"
  world :: 'w

text \<open>
  What a call does to the outside, in order: a logger call (level, the \<^verbatim>\<open>step\<close> field,
  message), a runtime call, an API call with its arguments.
\<close>

datatype op = SetupContainer_op | RunContainer_op | TailContainer_op | WaitContainer_op
  | InspectContainer_op | RemoveContainer_op

datatype event =
    Logger level string string
  | RuntimeCall op Container
  | Call_Step_Update string string int Step
  | Call_Log_GetStep string string int int
  | Call_Log_UpdateStep string string int int Log

fun runtime_op :: "event \<Rightarrow> op option" where
  "runtime_op (RuntimeCall x _) = Some x"
| "runtime_op _ = None"

definition runtime_ops :: "event list \<Rightarrow> op list" where
  "runtime_ops evs = List.map_filter runtime_op evs"

fun upload :: "event \<Rightarrow> bytes option" where
  "upload (Call_Log_UpdateStep _ _ _ _ l) = Some (Log_Data l)"
| "upload _ = None"

text \<open>The payloads passed to \<^verbatim>\<open>Log.UpdateStep\<close>, in order.\<close>

definition uploads :: "event list \<Rightarrow> bytes list" where
  "uploads evs = List.map_filter upload evs"

fun traced :: "event \<Rightarrow> bytes option" where
  "traced (Logger TraceLevel _ m) = Some m"
| "traced _ = None"

text \<open>The buffers written by \<^verbatim>\<open>logger.Trace(logs.String())\<close>, in order.\<close>

definition flushed :: "event list \<Rightarrow> bytes list" where
  "flushed evs = List.map_filter traced evs"

fun is_warning :: "event \<Rightarrow> bool" where
  "is_warning (Logger WarnLevel _ _) = True"
| "is_warning _ = False"

section \<open>CreateStep\<close>

text \<open>Lines 33 to 38: the five assignments to \<^verbatim>\<open>ctn.Environment\<close>.\<close>

definition CreateStep_environment :: "'w Lib \<Rightarrow> 'w client \<Rightarrow> Container \<Rightarrow> Container" where
  "CreateStep_environment lib c ctn =
     ctn\<lparr>Environment := (Environment ctn)
       (''BUILD_HOST'' \<mapsto> Hostname c,
        ''VELA_HOST'' \<mapsto> Hostname c,
        ''VELA_VERSION'' \<mapsto> version_String lib,
        ''VELA_RUNTIME'' \<mapsto> ''docker'',
        ''VELA_DISTRIBUTION'' \<mapsto> ''linux'')\<rparr>"

text \<open>The closure \<^verbatim>\<open>subFunc\<close>: reading a Go map at a missing key gives the empty string.\<close>

definition subFunc :: "'w Lib \<Rightarrow> Container \<Rightarrow> string \<Rightarrow> string" where
  "subFunc lib ctn name =
     (let env = (case Environment ctn name of None \<Rightarrow> [] | Some v \<Rightarrow> v)
      in if LF \<in> set env then Sprintf_q lib env else env)"

definition CreateStep ::
  "'w Lib \<Rightarrow> 'w client \<Rightarrow> Container \<Rightarrow> error option \<times> Container \<times> 'w client \<times> event list" where
  "CreateStep lib c ctn0 =
     (let step = Name ctn0;
          ctn = CreateStep_environment lib c ctn0
      in if Name ctn = ''init'' then (None, ctn, c, [])
         else
           let ev1 = [Logger DebugLevel step ''setting up container'',
                      RuntimeCall SetupContainer_op ctn];
               ((err, ctn), w) = SetupContainer (Runtime c) ctn (world c);
               c = c\<lparr>world := w\<rparr>
           in case err of
                Some e \<Rightarrow> (Some e, ctn, c, ev1)
              | None \<Rightarrow>
                  let ev2 = ev1 @ [Logger DebugLevel step ''injecting secrets''];
                      (err, ctn) = injectSecrets lib ctn (Secrets c)
                  in case err of
                       Some e \<Rightarrow> (Some e, ctn, c, ev2)
                     | None \<Rightarrow>
                         let ev3 = ev2 @ [Logger DebugLevel step ''marshaling configuration'']
                         in case json_Marshal lib ctn of
                              Inl e \<Rightarrow>
                                (Some (Errorf ''unable to marshal configuration: '' e), ctn, c, ev3)
                            | Inr body \<Rightarrow>
                                let ev4 = ev3 @ [Logger DebugLevel step ''substituting environment'']
                                in case envsubst_Eval lib body (subFunc lib ctn) of
                                     Inl e \<Rightarrow>
                                       (Some (Errorf ''unable to substitute environment variables: '' e),
                                        ctn, c, ev4)
                                   | Inr subStep \<Rightarrow>
                                       let ev5 = ev4 @ [Logger DebugLevel step ''unmarshaling configuration''];
                                           (err, ctn) = json_Unmarshal lib subStep ctn
                                       in case err of
                                            Some e \<Rightarrow>
                                              (Some (Errorf ''unable to unmarshal configuration: '' e),
                                               ctn, c, ev5)
                                          | None \<Rightarrow> (None, ctn, c, ev5))"

section \<open>PlanStep\<close>

text \<open>\<^verbatim>\<open>ctn.Environment[name]\<close>\<close>

definition getenv :: "Container \<Rightarrow> string \<Rightarrow> string" where
  "getenv ctn name = (case Environment ctn name of None \<Rightarrow> [] | Some v \<Rightarrow> v)"

text \<open>Lines 106 to 113: the step record that is uploaded.\<close>

definition PlanStep_record :: "'w Lib \<Rightarrow> 'w client \<Rightarrow> Container \<Rightarrow> Step" where
  "PlanStep_record lib c ctn =
     new_Step\<lparr>Step_Name := Some (Name ctn),
       Step_Number := Some (Number ctn),
       Step_Status := Some StatusRunning,
       Step_Started := Some (time_Now_Unix lib (world c)),
       Step_Host := Some (getenv ctn ''VELA_HOST''),
       Step_Runtime := Some (getenv ctn ''VELA_RUNTIME''),
       Step_Distribution := Some (getenv ctn ''VELA_DISTRIBUTION'')\<rparr>"

definition PlanStep ::
  "'w Lib \<Rightarrow> 'w client \<Rightarrow> Container \<Rightarrow> error option \<times> 'w client \<times> event list" where
  "PlanStep lib c ctn =
     (let b = build c; r = repo c;
          s = PlanStep_record lib c ctn;
          ev1 = [Logger DebugLevel (Name ctn) ''uploading step state'',
                 Call_Step_Update (Repo_Org r) (Repo_Name r) (Build_Number b) s];
          ((s, err), w) = Step_Update (Vela c) (Repo_Org r) (Repo_Name r) (Build_Number b) s (world c);
          c = c\<lparr>world := w\<rparr>
      in case err of
           Some e \<Rightarrow> (Some e, c, ev1)
         | None \<Rightarrow>
             let s = s\<lparr>Step_Status := Some StatusSuccess\<rparr>;
                 c = c\<lparr>steps := (steps c)(ID ctn \<mapsto> s)\<rparr>;
                 ev2 = ev1 @ [Logger DebugLevel (Name ctn) ''retrieve step log'',
                        Call_Log_GetStep (Repo_Org r) (Repo_Name r) (Build_Number b) (GetNumber s)];
                 ((l, err), w) =
                    Log_GetStep (Vela c) (Repo_Org r) (Repo_Name r) (Build_Number b) (GetNumber s) (world c);
                 c = c\<lparr>world := w\<rparr>
             in case err of
                  Some e \<Rightarrow> (Some e, c, ev2)
                | None \<Rightarrow> (None, c\<lparr>stepLogs := (stepLogs c)(ID ctn \<mapsto> l)\<rparr>, ev2))"

section \<open>ExecStep\<close>

text \<open>
  \<^verbatim>\<open>bufio.Scanner\<close> with its default split function \<^verbatim>\<open>ScanLines\<close> and its default buffer:
  a token ends at the first line feed, one carriage return before it is dropped, a
  last line without a line feed is a token too, and scanning stops with \<^verbatim>\<open>ErrTooLong\<close>
  when \<^verbatim>\<open>MaxScanTokenSize\<close> bytes hold no line feed. The result is the tokens of the
  successive \<^verbatim>\<open>Scan\<close> calls that return true, and \<^verbatim>\<open>scanner.Err()\<close>.
\<close>

definition MaxScanTokenSize :: nat where
  "MaxScanTokenSize = 64 * 1024"

definition ErrTooLong :: error where
  "ErrTooLong = Err ''bufio.Scanner: token too long''"

fun IndexByte :: "bytes \<Rightarrow> char \<Rightarrow> nat option" where
  "IndexByte [] b = None"
| "IndexByte (x # xs) b = (if x = b then Some 0 else map_option Suc (IndexByte xs b))"

definition dropCR :: "bytes \<Rightarrow> bytes" where
  "dropCR data = (if data \<noteq> [] \<and> last data = CR then butlast data else data)"

function scanner_Scan :: "bytes \<Rightarrow> bytes list \<times> error option" where
  "scanner_Scan rc =
     (if rc = [] then ([], None)
      else case IndexByte (take MaxScanTokenSize rc) LF of
             Some i \<Rightarrow>
               (let (toks, e) = scanner_Scan (drop (Suc i) rc)
                in (dropCR (take i rc) # toks, e))
           | None \<Rightarrow>
               if length rc < MaxScanTokenSize then ([dropCR rc], None)
               else ([], Some ErrTooLong))"
  by pat_completeness auto
termination
  by (relation "measure length") auto

declare scanner_Scan.simps [simp del]

text \<open>
  The loop \<^verbatim>\<open>for scanner.Scan()\<close> of the log streamer, over the tokens still to come:
  \<open>l\<close> is the log handle, \<open>logs\<close> the local buffer. \<open>Inl\<close> is the \<^verbatim>\<open>return err\<close>
  inside the loop, \<open>Inr\<close> the end of the loop. The first \<^verbatim>\<open>SetData\<close> writes through the
  pointer kept in the step-log map; the map entry of the client is left as it was here.
\<close>

fun scanLoop ::
  "'w client \<Rightarrow> Container \<Rightarrow> Log \<Rightarrow> bytes \<Rightarrow> bytes list \<Rightarrow>
     ((error \<times> Log \<times> bytes \<times> 'w client) + (Log \<times> bytes \<times> 'w client)) \<times> event list" where
  "scanLoop c ctn l logs [] = (Inr (l, logs, c), [])"
| "scanLoop c ctn l logs (tok # rest) =
     (let logs = logs @ tok @ [LF]
      in if length logs > 1000 then
           let b = build c; r = repo c;
               l = l\<lparr>Log_Data := Log_Data l @ logs\<rparr>;
               ev = [Logger TraceLevel (Name ctn) logs,
                     Logger DebugLevel (Name ctn) ''appending logs'',
                     Call_Log_UpdateStep (Repo_Org r) (Repo_Name r) (Build_Number b) (Number ctn) l];
               ((l, err), w) =
                  Log_UpdateStep (Vela c) (Repo_Org r) (Repo_Name r) (Build_Number b) (Number ctn) l (world c);
               c = c\<lparr>world := w\<rparr>
           in case err of
                Some e \<Rightarrow> (Inl (e, l, logs, c), ev)
              | None \<Rightarrow> (let (res, evs) = scanLoop c ctn l [] rest in (res, ev @ evs))
         else scanLoop c ctn l logs rest)"

text \<open>
  The goroutine of \<^verbatim>\<open>ExecStep\<close>, run from the log handle \<open>l\<close> it captured. Its returned
  error is dropped by the \<^verbatim>\<open>go\<close> statement; it is kept here to tell the exits apart.
\<close>

definition logStreamer ::
  "'w client \<Rightarrow> Container \<Rightarrow> Log \<Rightarrow> error option \<times> Log \<times> bytes \<times> 'w client \<times> event list" where
  "logStreamer c ctn l =
     (let ev0 = [Logger DebugLevel (Name ctn) ''tailing container'',
                 RuntimeCall TailContainer_op ctn];
          (rc, w) = TailContainer (Runtime c) ctn (world c);
          c = c\<lparr>world := w\<rparr>
      in case rc of
           Inl e \<Rightarrow> (Some e, l, [], c, ev0)
         | Inr rc \<Rightarrow>
             (case scanLoop c ctn l [] (fst (scanner_Scan rc)) of
                (Inl (e, l, logs, c), evs) \<Rightarrow> (Some e, l, logs, c, ev0 @ evs)
              | (Inr (l, logs, c), evs) \<Rightarrow>
                  let b = build c; r = repo c;
                      l = l\<lparr>Log_Data := Log_Data l @ logs\<rparr>;
                      ev = [Logger TraceLevel (Name ctn) logs,
                            Logger DebugLevel (Name ctn) ''uploading logs'',
                            Call_Log_UpdateStep (Repo_Org r) (Repo_Name r) (Build_Number b) (Number ctn) l];
                      ((l, err), w) =
                         Log_UpdateStep (Vela c) (Repo_Org r) (Repo_Name r) (Build_Number b) (Number ctn) l
                           (world c);
                      c = c\<lparr>world := w\<rparr>
                  in (err, l, logs, c, ev0 @ evs @ ev)))"

text \<open>
  \<^verbatim>\<open>ExecStep\<close>, the calling thread: the fourth component is the log handle of the
  goroutine it has started, if it has started one. The goroutine runs beside the caller;
  how the two interleave is not modelled.
\<close>

definition ExecStep ::
  "'w client \<Rightarrow> Container \<Rightarrow> error option \<times> Container \<times> 'w client \<times> Log option \<times> event list" where
  "ExecStep c ctn =
     (if Name ctn = ''init'' then (None, ctn, c, None, [])
      else case stepLogs c (ID ctn) of
             None \<Rightarrow> (Some (Err ''unable to get step log from client''), ctn, c, None, [])
           | Some l \<Rightarrow>
               let step = Name ctn;
                   ev1 = [Logger DebugLevel step ''running container'',
                          RuntimeCall RunContainer_op ctn];
                   ((err, ctn), w) = RunContainer (Runtime c) (pipeline c) ctn (world c);
                   c = c\<lparr>world := w\<rparr>
               in case err of
                    Some e \<Rightarrow> (Some e, ctn, c, None, ev1)
                  | None \<Rightarrow>
                      if Detach ctn then (None, ctn, c, Some l, ev1)
                      else
                        let ev2 = ev1 @ [Logger DebugLevel step ''waiting for container'',
                                         RuntimeCall WaitContainer_op ctn];
                            ((err, ctn), w) = WaitContainer (Runtime c) ctn (world c);
                            c = c\<lparr>world := w\<rparr>
                        in case err of
                             Some e \<Rightarrow> (Some e, ctn, c, Some l, ev2)
                           | None \<Rightarrow>
                               let ev3 = ev2 @ [Logger DebugLevel step ''inspecting container'',
                                                RuntimeCall InspectContainer_op ctn];
                                   ((err, ctn), w) = InspectContainer (Runtime c) ctn (world c);
                                   c = c\<lparr>world := w\<rparr>
                               in (err, ctn, c, Some l, ev3))"

section \<open>DestroyStep\<close>

definition DestroyStep ::
  "'w client \<Rightarrow> Container \<Rightarrow> error option \<times> Container \<times> 'w client \<times> event list" where
  "DestroyStep c ctn =
     (if Name ctn = ''init'' then (None, ctn, c, [])
      else
        let ev = [Logger DebugLevel (Name ctn) ''removing container'',
                  RuntimeCall RemoveContainer_op ctn];
            ((err, ctn), w) = RemoveContainer (Runtime c) ctn (world c)
        in (err, ctn, c\<lparr>world := w\<rparr>, ev))"

section \<open>The Kubernetes runtime: volumes\<close>

text \<open>
  The three methods of \<^verbatim>\<open>runtime/kubernetes/volume.go\<close>, for any client type \<open>'k\<close>: each
  returns its results and the client as it was. A nil byte slice is \<^term>\<open>None\<close>.
\<close>

definition CreateVolume :: "'k \<Rightarrow> pipeline_Build \<Rightarrow> error option \<times> 'k" where
  "CreateVolume c b = (None, c)"

definition InspectVolume :: "'k \<Rightarrow> pipeline_Build \<Rightarrow> (bytes option \<times> error option) \<times> 'k" where
  "InspectVolume c b = ((None, None), c)"

definition RemoveVolume :: "'k \<Rightarrow> pipeline_Build \<Rightarrow> error option \<times> 'k" where
  "RemoveVolume c b = (None, c)"

section \<open>The stream as it is delivered\<close>


section \<open>Example collaborators\<close>

text \<open>
  A runtime whose calls all succeed and whose tail delivers \<open>rc\<close>; an API that returns
  the record it is sent, counts the log uploads in the world, and accepts the upload
  number \<open>w\<close> when \<open>ok w\<close>; library functions that leave the container as it is. They
  instantiate the theorems below at concrete inputs.
\<close>

definition example_Runtime :: "bytes \<Rightarrow> nat runtime_Engine" where
  "example_Runtime rc =
     \<lparr>SetupContainer = (\<lambda>ctn w. ((None, ctn), w)),
      RunContainer = (\<lambda>p ctn w. ((None, ctn), w)),
      TailContainer = (\<lambda>ctn w. (Inr rc, w)),
      WaitContainer = (\<lambda>ctn w. ((None, ctn), w)),
      InspectContainer = (\<lambda>ctn w. ((None, ctn), w)),
      RemoveContainer = (\<lambda>ctn w. ((None, ctn), w))\<rparr>"

definition example_Vela :: "(nat \<Rightarrow> bool) \<Rightarrow> nat vela_Client" where
  "example_Vela ok =
     \<lparr>Step_Update = (\<lambda>org name b s w. ((s, None), w)),
      Log_GetStep = (\<lambda>org name b n w. ((\<lparr>Log_Data = []\<rparr>, None), w)),
      Log_UpdateStep = (\<lambda>org name b n l w.
         ((l, if ok w then None else Some (Err ''upload failed'')), Suc w))\<rparr>"

definition example_client :: "bytes \<Rightarrow> (nat \<Rightarrow> bool) \<Rightarrow> nat client" where
  "example_client rc ok =
     \<lparr>Hostname = ''worker-1'',
      Secrets = Map.empty,
      Runtime = example_Runtime rc,
      Vela = example_Vela ok,
      build = \<lparr>Build_Number = 7\<rparr>,
      repo = \<lparr>Repo_Org = ''octo'', Repo_Name = ''cat''\<rparr>,
      pipeline = \<lparr>pipeline_ID = ''octo_cat_7''\<rparr>,
      steps = Map.empty,
      stepLogs = Map.empty,
      world = 0\<rparr>"

text \<open>
  The stand-in for \<^verbatim>\<open>json.Marshal\<close> writes the container's name, the one for
  \<^verbatim>\<open>envsubst.Eval\<close> rejects the template \<^verbatim>\<open>${\<close> and resolves any other as one name.
\<close>

definition example_Lib :: "nat Lib" where
  "example_Lib =
     \<lparr>version_String = ''v0.4.0'',
      time_Now_Unix = (\<lambda>w. 1577836800 + int w),
      injectSecrets = (\<lambda>ctn secrets. (None, ctn)),
      json_Marshal = (\<lambda>ctn. Inr (Name ctn)),
      json_Unmarshal = (\<lambda>body ctn. (None, ctn)),
      envsubst_Eval = (\<lambda>body f. if body = ''${'' then Inl (Err ''missing closing brace'') else Inr (f body)),
      Sprintf_q = (\<lambda>v. ''\"'' @ v @ ''\"'')\<rparr>"

definition example_step :: "string \<Rightarrow> bool \<Rightarrow> Container" where
  "example_step name detach =
     \<lparr>ID = ''step_'' @ name, Name = name, Number = 2, Detach = detach, Environment = Map.empty\<rparr>"

text \<open>The example client after a plan of the step \<^verbatim>\<open>build\<close>: its log handle is stored.\<close>

definition example_planned :: "bytes \<Rightarrow> (nat \<Rightarrow> bool) \<Rightarrow> nat client" where
  "example_planned rc ok = (example_client rc ok)\<lparr>stepLogs := [''step_build'' \<mapsto> \<lparr>Log_Data = []\<rparr>]\<rparr>"

text \<open>An environment with a plain value and a value that holds a line feed.\<close>

definition example_env :: "string \<rightharpoonup> string" where
  "example_env = [''A'' \<mapsto> ''1'', ''B'' \<mapsto> ''x'' @ [LF] @ ''y'']"

text \<open>
  Two streams: a line of 1001 bytes followed by the line \<^verbatim>\<open>b\<close>, and a line as long as
  the scanner's buffer followed by the line \<^verbatim>\<open>b\<close>.
\<close>

definition example_stream :: bytes where
  "example_stream = replicate 1001 (CHR ''a'') @ LF # ''b'' @ [LF]"



declare scanLoop.simps(2) [simp del]

section \<open>Properties\<close>

subsection \<open>The init step\<close>

text \<open>
  C6. For a container named \<^verbatim>\<open>init\<close>, \<^verbatim>\<open>CreateStep\<close>, \<^verbatim>\<open>ExecStep\<close> and \<^verbatim>\<open>DestroyStep\<close>
  each return nil and make no runtime call: they emit no event at all and leave the
  client and the outside world as they were (\<^verbatim>\<open>CreateStep\<close> has set the well-known
  environment entries of the container before it returns).
\<close>

theorem init_step_skipped:
  assumes "Name ctn = ''init''"
  shows "CreateStep lib c ctn = (None, CreateStep_environment lib c ctn, c, [])
     \<and> ExecStep c ctn = (None, ctn, c, None, [])
     \<and> DestroyStep c ctn = (None, ctn, c, [])
     \<and> runtime_ops (snd (snd (snd (CreateStep lib c ctn)))) = []
     \<and> runtime_ops (snd (snd (snd (snd (ExecStep c ctn))))) = []
     \<and> runtime_ops (snd (snd (snd (DestroyStep c ctn)))) = []"
  using assms
  by (simp add: CreateStep_def CreateStep_environment_def ExecStep_def DestroyStep_def runtime_ops_def
      List.map_filter_simps)

theorem init_step_skipped_witness:
  "Name (example_step ''init'' False) = ''init''
     \<and> CreateStep example_Lib (example_client [] (\<lambda>w. True)) (example_step ''init'' False)
        = (None, CreateStep_environment example_Lib (example_client [] (\<lambda>w. True)) (example_step ''init'' False),
           example_client [] (\<lambda>w. True), [])
     \<and> ExecStep (example_client [] (\<lambda>w. True)) (example_step ''init'' False)
        = (None, example_step ''init'' False, example_client [] (\<lambda>w. True), None, [])
     \<and> DestroyStep (example_client [] (\<lambda>w. True)) (example_step ''init'' False)
        = (None, example_step ''init'' False, example_client [] (\<lambda>w. True), [])"
  using init_step_skipped [of "example_step ''init'' False" example_Lib "example_client [] (\<lambda>w. True)"]
  by (simp add: example_step_def)

subsection \<open>ExecStep without a planned step\<close>

lemma PlanStep_stores_log:
  assumes "fst (PlanStep lib c ctn) = None"
  shows "stepLogs (fst (snd (PlanStep lib c ctn))) (ID ctn) \<noteq> None"
  using assms
  by (auto simp: PlanStep_def Let_def split: prod.splits option.splits)

text \<open>
  C10. For a container not named \<^verbatim>\<open>init\<close> whose ID has no log handle in the step-log
  map, \<^verbatim>\<open>ExecStep\<close> returns the error \<^verbatim>\<open>unable to get step log from client\<close> with no
  runtime call made and the client (the runtime's world, the step map, the step-log map)
  unchanged. A \<^verbatim>\<open>PlanStep\<close> that returns nil has stored a handle under that ID.
\<close>

theorem exec_requires_step_log:
  assumes "Name ctn \<noteq> ''init''" and "stepLogs c (ID ctn) = None"
  shows "ExecStep c ctn = (Some (Err ''unable to get step log from client''), ctn, c, None, [])
     \<and> runtime_ops (snd (snd (snd (snd (ExecStep c ctn))))) = []
     \<and> (fst (PlanStep lib c ctn) = None \<longrightarrow>
          stepLogs (fst (snd (PlanStep lib c ctn))) (ID ctn) \<noteq> None)"
  using assms PlanStep_stores_log [of lib c ctn]
  by (simp add: ExecStep_def runtime_ops_def List.map_filter_simps)

theorem exec_requires_step_log_witness:
  "Name (example_step ''build'' False) \<noteq> ''init''
     \<and> stepLogs (example_client [] (\<lambda>w. True)) (ID (example_step ''build'' False)) = None
     \<and> ExecStep (example_client [] (\<lambda>w. True)) (example_step ''build'' False)
        = (Some (Err ''unable to get step log from client''), example_step ''build'' False,
           example_client [] (\<lambda>w. True), None, [])
     \<and> fst (PlanStep example_Lib (example_client [] (\<lambda>w. True)) (example_step ''build'' False)) = None
     \<and> stepLogs (fst (snd (PlanStep example_Lib (example_client [] (\<lambda>w. True)) (example_step ''build'' False))))
          (ID (example_step ''build'' False)) \<noteq> None"
proof -
  have plan: "fst (PlanStep example_Lib (example_client [] (\<lambda>w. True)) (example_step ''build'' False)) = None"
    by (simp add: PlanStep_def Let_def example_client_def example_Vela_def)
  show ?thesis
    using exec_requires_step_log [of "example_step ''build'' False" "example_client [] (\<lambda>w. True)" example_Lib] plan
    by (simp add: example_step_def example_client_def)
qed

subsection \<open>The runtime calls of ExecStep\<close>

text \<open>
  C3, as the code has it. For a container not named \<^verbatim>\<open>init\<close> whose log handle is stored,
  \<^verbatim>\<open>ExecStep\<close> calls \<^verbatim>\<open>RunContainer\<close> first. If that fails, it returns the error and
  starts no log streamer. If it succeeds and \<^verbatim>\<open>Detach\<close> is set, \<^verbatim>\<open>ExecStep\<close> returns nil
  with the streamer started and neither \<^verbatim>\<open>WaitContainer\<close> nor \<^verbatim>\<open>InspectContainer\<close>
  called. If it succeeds and \<^verbatim>\<open>Detach\<close> is not set, \<^verbatim>\<open>WaitContainer\<close> is called next; its
  error is returned without an inspect; when it succeeds \<^verbatim>\<open>InspectContainer\<close> is called
  and its result returned, so that the runtime calls are run, wait, inspect in that order.
\<close>

theorem exec_step_runtime_calls:
  assumes "Name ctn \<noteq> ''init''" and "stepLogs c (ID ctn) = Some l"
  shows
    "(RunContainer (Runtime c) (pipeline c) ctn (world c) = ((Some e, ctn1), w1) \<longrightarrow>
        ExecStep c ctn = (Some e, ctn1, c\<lparr>world := w1\<rparr>, None,
          [Logger DebugLevel (Name ctn) ''running container'', RuntimeCall RunContainer_op ctn]))
     \<and> (RunContainer (Runtime c) (pipeline c) ctn (world c) = ((None, ctn1), w1) \<and> Detach ctn1 \<longrightarrow>
        ExecStep c ctn = (None, ctn1, c\<lparr>world := w1\<rparr>, Some l,
          [Logger DebugLevel (Name ctn) ''running container'', RuntimeCall RunContainer_op ctn]))
     \<and> (RunContainer (Runtime c) (pipeline c) ctn (world c) = ((None, ctn1), w1) \<and> \<not> Detach ctn1
          \<and> WaitContainer (Runtime c) ctn1 w1 = ((Some e, ctn2), w2) \<longrightarrow>
        ExecStep c ctn = (Some e, ctn2, c\<lparr>world := w2\<rparr>, Some l,
          [Logger DebugLevel (Name ctn) ''running container'', RuntimeCall RunContainer_op ctn,
           Logger DebugLevel (Name ctn) ''waiting for container'', RuntimeCall WaitContainer_op ctn1]))
     \<and> (RunContainer (Runtime c) (pipeline c) ctn (world c) = ((None, ctn1), w1) \<and> \<not> Detach ctn1
          \<and> WaitContainer (Runtime c) ctn1 w1 = ((None, ctn2), w2)
          \<and> InspectContainer (Runtime c) ctn2 w2 = ((err, ctn3), w3) \<longrightarrow>
        ExecStep c ctn = (err, ctn3, c\<lparr>world := w3\<rparr>, Some l,
          [Logger DebugLevel (Name ctn) ''running container'', RuntimeCall RunContainer_op ctn,
           Logger DebugLevel (Name ctn) ''waiting for container'', RuntimeCall WaitContainer_op ctn1,
           Logger DebugLevel (Name ctn) ''inspecting container'', RuntimeCall InspectContainer_op ctn2])
        \<and> runtime_ops (snd (snd (snd (snd (ExecStep c ctn)))))
            = [RunContainer_op, WaitContainer_op, InspectContainer_op])"
  using assms by (simp add: ExecStep_def Let_def runtime_ops_def List.map_filter_simps)

theorem exec_step_runtime_calls_witness:
  "ExecStep (example_planned [] (\<lambda>w. True)) (example_step ''build'' True)
     = (None, example_step ''build'' True, example_planned [] (\<lambda>w. True), Some \<lparr>Log_Data = []\<rparr>,
        [Logger DebugLevel ''build'' ''running container'',
         RuntimeCall RunContainer_op (example_step ''build'' True)])
   \<and> ExecStep (example_planned [] (\<lambda>w. True)) (example_step ''build'' False)
     = (None, example_step ''build'' False, example_planned [] (\<lambda>w. True), Some \<lparr>Log_Data = []\<rparr>,
        [Logger DebugLevel ''build'' ''running container'',
         RuntimeCall RunContainer_op (example_step ''build'' False),
         Logger DebugLevel ''build'' ''waiting for container'',
         RuntimeCall WaitContainer_op (example_step ''build'' False),
         Logger DebugLevel ''build'' ''inspecting container'',
         RuntimeCall InspectContainer_op (example_step ''build'' False)])"
  using exec_step_runtime_calls [of "example_step ''build'' True" "example_planned [] (\<lambda>w. True)"
      "\<lparr>Log_Data = []\<rparr>" undefined "example_step ''build'' True" 0 undefined undefined None
      "example_step ''build'' True" 0]
    exec_step_runtime_calls [of "example_step ''build'' False" "example_planned [] (\<lambda>w. True)"
      "\<lparr>Log_Data = []\<rparr>" undefined "example_step ''build'' False" 0 "example_step ''build'' False" 0 None
      "example_step ''build'' False" 0]
  by (simp add: example_planned_def example_step_def example_client_def example_Runtime_def)

text \<open>
  The claim as the specification words it fails at the init step: with \<^verbatim>\<open>Detach\<close> false,
  \<^verbatim>\<open>ExecStep\<close> makes no runtime call.
\<close>

theorem exec_step_runtime_calls_counterexample:
  "\<not> Detach (example_step ''init'' False)
     \<and> runtime_ops (snd (snd (snd (snd
          (ExecStep (example_client [] (\<lambda>w. True)) (example_step ''init'' False)))))) = []
     \<and> runtime_ops (snd (snd (snd (snd
          (ExecStep (example_client [] (\<lambda>w. True)) (example_step ''init'' False))))))
        \<noteq> [RunContainer_op, WaitContainer_op, InspectContainer_op]"
  by (simp add: ExecStep_def Let_def example_step_def runtime_ops_def List.map_filter_simps)

subsection \<open>The Kubernetes volume operations\<close>

text \<open>
  C9. \<^verbatim>\<open>CreateVolume\<close> and \<^verbatim>\<open>RemoveVolume\<close> of the Kubernetes runtime return nil, and
  \<^verbatim>\<open>InspectVolume\<close> returns a nil byte slice and a nil error, for every client and every
  pipeline; the client is returned as it was, and the results depend on neither argument.
\<close>

theorem kubernetes_volume_stubs:
  "CreateVolume c b = (None, c) \<and> RemoveVolume c b = (None, c)
     \<and> InspectVolume c b = ((None, None), c)
     \<and> fst (CreateVolume c b) = fst (CreateVolume c' b')
     \<and> fst (RemoveVolume c b) = fst (RemoveVolume c' b')
     \<and> fst (InspectVolume c b) = fst (InspectVolume c' b')"
  by (simp add: CreateVolume_def RemoveVolume_def InspectVolume_def)

subsection \<open>The well-known environment\<close>

text \<open>
  C5. Let \<open>ctn'\<close> be the container with \<^verbatim>\<open>BUILD_HOST\<close> and \<^verbatim>\<open>VELA_HOST\<close> set to the
  executor's hostname, \<^verbatim>\<open>VELA_VERSION\<close> to the worker version, \<^verbatim>\<open>VELA_RUNTIME\<close> to the
  fixed string \<^verbatim>\<open>docker\<close> and \<^verbatim>\<open>VELA_DISTRIBUTION\<close> to the fixed string \<^verbatim>\<open>linux\<close>, and
  every other entry as it was. For every container, client and runtime, \<^verbatim>\<open>CreateStep\<close>
  returns \<open>ctn'\<close> for the init step, and for any other step calls \<^verbatim>\<open>SetupContainer\<close>
  with \<open>ctn'\<close> and carries what that call returns through secret injection,
  marshalling, substitution and unmarshalling, returning at the first error; the
  container it returns is the one the last of these steps produced, so an entry that the
  runtime, the secret injection and the unmarshalling leave alone is in the result as it
  is in \<open>ctn'\<close>.
\<close>


theorem well_known_environment:
  assumes env: "ctn' = ctn\<lparr>Environment := (Environment ctn)
       (''BUILD_HOST'' \<mapsto> Hostname c,
        ''VELA_HOST'' \<mapsto> Hostname c,
        ''VELA_VERSION'' \<mapsto> version_String lib,
        ''VELA_RUNTIME'' \<mapsto> ''docker'',
        ''VELA_DISTRIBUTION'' \<mapsto> ''linux'')\<rparr>"
  shows
    "Environment ctn' ''BUILD_HOST'' = Some (Hostname c)
   \<and> Environment ctn' ''VELA_HOST'' = Some (Hostname c)
   \<and> Environment ctn' ''VELA_VERSION'' = Some (version_String lib)
   \<and> Environment ctn' ''VELA_RUNTIME'' = Some ''docker''
   \<and> Environment ctn' ''VELA_DISTRIBUTION'' = Some ''linux''
   \<and> (k \<notin> {''BUILD_HOST'', ''VELA_HOST'', ''VELA_VERSION'', ''VELA_RUNTIME'', ''VELA_DISTRIBUTION''} \<longrightarrow>
        Environment ctn' k = Environment ctn k)
   \<and> (Name ctn = ''init'' \<longrightarrow> CreateStep lib c ctn = (None, ctn', c, []))
   \<and> (Name ctn \<noteq> ''init''
        \<and> SetupContainer (Runtime c) ctn' (world c) = ((Some e, ctn1), w) \<longrightarrow>
      CreateStep lib c ctn = (Some e, ctn1, c\<lparr>world := w\<rparr>,
        [Logger DebugLevel (Name ctn) ''setting up container'', RuntimeCall SetupContainer_op ctn']))
   \<and> (Name ctn \<noteq> ''init''
        \<and> SetupContainer (Runtime c) ctn' (world c) = ((None, ctn1), w)
        \<and> injectSecrets lib ctn1 (Secrets c) = (Some e, ctn2) \<longrightarrow>
      CreateStep lib c ctn = (Some e, ctn2, c\<lparr>world := w\<rparr>,
        [Logger DebugLevel (Name ctn) ''setting up container'', RuntimeCall SetupContainer_op ctn',
         Logger DebugLevel (Name ctn) ''injecting secrets'']))
   \<and> (Name ctn \<noteq> ''init''
        \<and> SetupContainer (Runtime c) ctn' (world c) = ((None, ctn1), w)
        \<and> injectSecrets lib ctn1 (Secrets c) = (None, ctn2)
        \<and> json_Marshal lib ctn2 = Inl e \<longrightarrow>
      CreateStep lib c ctn = (Some (Errorf ''unable to marshal configuration: '' e), ctn2, c\<lparr>world := w\<rparr>,
        [Logger DebugLevel (Name ctn) ''setting up container'', RuntimeCall SetupContainer_op ctn',
         Logger DebugLevel (Name ctn) ''injecting secrets'',
         Logger DebugLevel (Name ctn) ''marshaling configuration'']))
   \<and> (Name ctn \<noteq> ''init''
        \<and> SetupContainer (Runtime c) ctn' (world c) = ((None, ctn1), w)
        \<and> injectSecrets lib ctn1 (Secrets c) = (None, ctn2)
        \<and> json_Marshal lib ctn2 = Inr body
        \<and> envsubst_Eval lib body (subFunc lib ctn2) = Inl e \<longrightarrow>
      CreateStep lib c ctn = (Some (Errorf ''unable to substitute environment variables: '' e), ctn2,
        c\<lparr>world := w\<rparr>,
        [Logger DebugLevel (Name ctn) ''setting up container'', RuntimeCall SetupContainer_op ctn',
         Logger DebugLevel (Name ctn) ''injecting secrets'',
         Logger DebugLevel (Name ctn) ''marshaling configuration'',
         Logger DebugLevel (Name ctn) ''substituting environment'']))
   \<and> (Name ctn \<noteq> ''init''
        \<and> SetupContainer (Runtime c) ctn' (world c) = ((None, ctn1), w)
        \<and> injectSecrets lib ctn1 (Secrets c) = (None, ctn2)
        \<and> json_Marshal lib ctn2 = Inr body
        \<and> envsubst_Eval lib body (subFunc lib ctn2) = Inr subStep
        \<and> json_Unmarshal lib subStep ctn2 = (err, ctn3) \<longrightarrow>
      CreateStep lib c ctn = (map_option (Errorf ''unable to unmarshal configuration: '') err, ctn3,
        c\<lparr>world := w\<rparr>,
        [Logger DebugLevel (Name ctn) ''setting up container'', RuntimeCall SetupContainer_op ctn',
         Logger DebugLevel (Name ctn) ''injecting secrets'',
         Logger DebugLevel (Name ctn) ''marshaling configuration'',
         Logger DebugLevel (Name ctn) ''substituting environment'',
         Logger DebugLevel (Name ctn) ''unmarshaling configuration''])
      \<and> (Environment ctn1 k = Environment ctn' k \<and> Environment ctn2 k = Environment ctn1 k
           \<and> Environment ctn3 k = Environment ctn2 k \<longrightarrow>
          Environment (fst (snd (CreateStep lib c ctn))) k = Environment ctn' k))"
  unfolding env
  apply (intro conjI)
  subgoal by simp
  subgoal by simp
  subgoal by simp
  subgoal by simp
  subgoal by simp
  subgoal by simp
  subgoal by (simp add: CreateStep_def CreateStep_environment_def)
  subgoal by (simp add: CreateStep_def CreateStep_environment_def Let_def)
  subgoal by (simp add: CreateStep_def CreateStep_environment_def Let_def)
  subgoal by (simp add: CreateStep_def CreateStep_environment_def Let_def)
  subgoal by (simp add: CreateStep_def CreateStep_environment_def Let_def)
  subgoal by (auto simp: CreateStep_def CreateStep_environment_def Let_def split: option.splits)
  done

theorem well_known_environment_witness:
  "CreateStep example_Lib (example_client [] (\<lambda>w. True)) (example_step ''init'' False)
     = (None,
        (example_step ''init'' False)\<lparr>Environment :=
          [''BUILD_HOST'' \<mapsto> ''worker-1'', ''VELA_HOST'' \<mapsto> ''worker-1'', ''VELA_VERSION'' \<mapsto> ''v0.4.0'',
           ''VELA_RUNTIME'' \<mapsto> ''docker'', ''VELA_DISTRIBUTION'' \<mapsto> ''linux'']\<rparr>,
        example_client [] (\<lambda>w. True), [])
   \<and> CreateStep example_Lib (example_client [] (\<lambda>w. True)) (example_step ''build'' False)
     = (None,
        (example_step ''build'' False)\<lparr>Environment :=
          [''BUILD_HOST'' \<mapsto> ''worker-1'', ''VELA_HOST'' \<mapsto> ''worker-1'', ''VELA_VERSION'' \<mapsto> ''v0.4.0'',
           ''VELA_RUNTIME'' \<mapsto> ''docker'', ''VELA_DISTRIBUTION'' \<mapsto> ''linux'']\<rparr>,
        example_client [] (\<lambda>w. True),
        [Logger DebugLevel ''build'' ''setting up container'',
         RuntimeCall SetupContainer_op ((example_step ''build'' False)\<lparr>Environment :=
          [''BUILD_HOST'' \<mapsto> ''worker-1'', ''VELA_HOST'' \<mapsto> ''worker-1'', ''VELA_VERSION'' \<mapsto> ''v0.4.0'',
           ''VELA_RUNTIME'' \<mapsto> ''docker'', ''VELA_DISTRIBUTION'' \<mapsto> ''linux'']\<rparr>),
         Logger DebugLevel ''build'' ''injecting secrets'',
         Logger DebugLevel ''build'' ''marshaling configuration'',
         Logger DebugLevel ''build'' ''substituting environment'',
         Logger DebugLevel ''build'' ''unmarshaling configuration''])"
proof -
  let ?c = "example_client [] (\<lambda>w. True)"
  let ?env = "[''BUILD_HOST'' \<mapsto> ''worker-1'', ''VELA_HOST'' \<mapsto> ''worker-1'', ''VELA_VERSION'' \<mapsto> ''v0.4.0'',
           ''VELA_RUNTIME'' \<mapsto> ''docker'', ''VELA_DISTRIBUTION'' \<mapsto> ''linux'']"
  let ?i = "example_step ''init'' False"
  let ?b = "example_step ''build'' False"
  have envi: "?i\<lparr>Environment := ?env\<rparr> = ?i\<lparr>Environment := (Environment ?i)
       (''BUILD_HOST'' \<mapsto> Hostname ?c, ''VELA_HOST'' \<mapsto> Hostname ?c,
        ''VELA_VERSION'' \<mapsto> version_String example_Lib,
        ''VELA_RUNTIME'' \<mapsto> ''docker'', ''VELA_DISTRIBUTION'' \<mapsto> ''linux'')\<rparr>"
    and envb: "?b\<lparr>Environment := ?env\<rparr> = ?b\<lparr>Environment := (Environment ?b)
       (''BUILD_HOST'' \<mapsto> Hostname ?c, ''VELA_HOST'' \<mapsto> Hostname ?c,
        ''VELA_VERSION'' \<mapsto> version_String example_Lib,
        ''VELA_RUNTIME'' \<mapsto> ''docker'', ''VELA_DISTRIBUTION'' \<mapsto> ''linux'')\<rparr>"
    by (simp_all add: example_step_def example_client_def example_Lib_def)
  have names: "Name ?i = ''init''" "Name ?b \<noteq> ''init''"
    by (simp_all add: example_step_def)
  have su: "SetupContainer (Runtime ?c) (?b\<lparr>Environment := ?env\<rparr>) (world ?c) = ((None, ?b\<lparr>Environment := ?env\<rparr>), 0)"
    by (simp add: example_client_def example_Runtime_def)
  have inj: "injectSecrets example_Lib (?b\<lparr>Environment := ?env\<rparr>) (Secrets ?c) = (None, ?b\<lparr>Environment := ?env\<rparr>)"
    by (simp add: example_Lib_def)
  have mar: "json_Marshal example_Lib (?b\<lparr>Environment := ?env\<rparr>) = Inr ''build''"
    by (simp add: example_Lib_def example_step_def)
  have ev: "envsubst_Eval example_Lib ''build'' (subFunc example_Lib (?b\<lparr>Environment := ?env\<rparr>)) = Inr []"
    by (simp add: example_Lib_def subFunc_def)
  have unm: "json_Unmarshal example_Lib [] (?b\<lparr>Environment := ?env\<rparr>) = (None, ?b\<lparr>Environment := ?env\<rparr>)"
    by (simp add: example_Lib_def)
  note i7 = well_known_environment [OF envi, THEN conjunct2, THEN conjunct2, THEN conjunct2, THEN conjunct2,
      THEN conjunct2, THEN conjunct2, THEN conjunct1, THEN mp, OF names(1)]
  note b12 = well_known_environment [OF envb, THEN conjunct2, THEN conjunct2, THEN conjunct2, THEN conjunct2,
      THEN conjunct2, THEN conjunct2, THEN conjunct2, THEN conjunct2, THEN conjunct2, THEN conjunct2,
      THEN conjunct2, THEN mp, THEN conjunct1]
  have "CreateStep example_Lib ?c ?b = (None, ?b\<lparr>Environment := ?env\<rparr>, ?c\<lparr>world := 0\<rparr>,
        [Logger DebugLevel (Name ?b) ''setting up container'',
         RuntimeCall SetupContainer_op (?b\<lparr>Environment := ?env\<rparr>),
         Logger DebugLevel (Name ?b) ''injecting secrets'',
         Logger DebugLevel (Name ?b) ''marshaling configuration'',
         Logger DebugLevel (Name ?b) ''substituting environment'',
         Logger DebugLevel (Name ?b) ''unmarshaling configuration''])"
    using b12 [of "?b\<lparr>Environment := ?env\<rparr>" 0 "?b\<lparr>Environment := ?env\<rparr>" "''build''" "[]" None
        "?b\<lparr>Environment := ?env\<rparr>"] names(2) su inj mar ev unm
    by simp
  moreover have "?c\<lparr>world := 0\<rparr> = ?c" "Name ?b = ''build''"
    by (simp_all add: example_client_def example_step_def)
  ultimately show ?thesis
    using i7 by simp
qed

subsection \<open>PlanStep\<close>



subsection \<open>Environment substitution\<close>

text \<open>
  C4. Once \<^verbatim>\<open>SetupContainer\<close>, \<^verbatim>\<open>injectSecrets\<close> and \<^verbatim>\<open>json.Marshal\<close> have succeeded for
  a step other than init, \<^verbatim>\<open>CreateStep\<close> evaluates the serialized container with the
  resolver \<^verbatim>\<open>subFunc\<close> over the environment of that very container as secret injection
  left it: a name that is not in the map resolves to the empty string, a name whose value
  has no line feed resolves to the value, a name whose value has a line feed resolves to
  the value quoted by \<^verbatim>\<open>%q\<close>. When the evaluation reports an error (a malformed
  expression), \<^verbatim>\<open>CreateStep\<close> fails with
  \<^verbatim>\<open>unable to substitute environment variables: <error>\<close>; otherwise the result of the
  evaluation is unmarshalled into the container.
\<close>

theorem environment_substitution:
  assumes "Name ctn \<noteq> ''init''"
    and "SetupContainer (Runtime c) (CreateStep_environment lib c ctn) (world c) = ((None, ctn1), w)"
    and "injectSecrets lib ctn1 (Secrets c) = (None, ctn2)"
    and "json_Marshal lib ctn2 = Inr body"
  shows
    "(Environment ctn2 name = None \<longrightarrow> subFunc lib ctn2 name = [])
     \<and> (Environment ctn2 name = Some v \<and> LF \<notin> set v \<longrightarrow> subFunc lib ctn2 name = v)
     \<and> (Environment ctn2 name = Some v \<and> LF \<in> set v \<longrightarrow> subFunc lib ctn2 name = Sprintf_q lib v)
     \<and> (envsubst_Eval lib body (subFunc lib ctn2) = Inl e \<longrightarrow>
          fst (CreateStep lib c ctn) = Some (Errorf ''unable to substitute environment variables: '' e)
          \<and> fst (snd (CreateStep lib c ctn)) = ctn2)
     \<and> (envsubst_Eval lib body (subFunc lib ctn2) = Inr subStep \<longrightarrow>
          fst (CreateStep lib c ctn)
            = map_option (Errorf ''unable to unmarshal configuration: '') (fst (json_Unmarshal lib subStep ctn2))
          \<and> fst (snd (CreateStep lib c ctn)) = snd (json_Unmarshal lib subStep ctn2))"
  using assms
  by (simp add: CreateStep_def CreateStep_environment_def subFunc_def Let_def
      split: prod.splits option.splits sum.splits)

theorem environment_substitution_witness:
  "subFunc example_Lib (CreateStep_environment example_Lib (example_client [] (\<lambda>w. True))
      ((example_step ''A'' False)\<lparr>Environment := example_env\<rparr>)) ''A'' = ''1''
   \<and> subFunc example_Lib (CreateStep_environment example_Lib (example_client [] (\<lambda>w. True))
      ((example_step ''A'' False)\<lparr>Environment := example_env\<rparr>)) ''B'' = ''\"x'' @ [LF] @ ''y\"''
   \<and> subFunc example_Lib (CreateStep_environment example_Lib (example_client [] (\<lambda>w. True))
      ((example_step ''A'' False)\<lparr>Environment := example_env\<rparr>)) ''C'' = []
   \<and> fst (CreateStep example_Lib (example_client [] (\<lambda>w. True))
        ((example_step ''A'' False)\<lparr>Environment := example_env\<rparr>)) = None
   \<and> fst (CreateStep example_Lib (example_client [] (\<lambda>w. True))
        ((example_step ''${'' False)\<lparr>Environment := example_env\<rparr>))
      = Some (Err ''unable to substitute environment variables: missing closing brace'')"
proof -
  let ?c = "example_client [] (\<lambda>w. True)"
  let ?a = "(example_step ''A'' False)\<lparr>Environment := example_env\<rparr>"
  let ?b = "(example_step ''${'' False)\<lparr>Environment := example_env\<rparr>"
  let ?a2 = "CreateStep_environment example_Lib ?c ?a"
  let ?b2 = "CreateStep_environment example_Lib ?c ?b"
  have su: "SetupContainer (Runtime ?c) ?a2 (world ?c) = ((None, ?a2), 0)"
    "SetupContainer (Runtime ?c) ?b2 (world ?c) = ((None, ?b2), 0)"
    by (simp_all add: example_client_def example_Runtime_def)
  have inject: "injectSecrets example_Lib ?a2 (Secrets ?c) = (None, ?a2)"
    "injectSecrets example_Lib ?b2 (Secrets ?c) = (None, ?b2)"
    by (simp_all add: example_Lib_def)
  have marshal: "json_Marshal example_Lib ?a2 = Inr ''A''" "json_Marshal example_Lib ?b2 = Inr ''${''"
    by (simp_all add: example_Lib_def example_step_def CreateStep_environment_def)
  have names: "Name ?a \<noteq> ''init''" "Name ?b \<noteq> ''init''"
    by (simp_all add: example_step_def)
  have envA: "Environment ?a2 ''A'' = Some ''1''" "LF \<notin> set ''1''"
    and envB: "Environment ?a2 ''B'' = Some (''x'' @ [LF] @ ''y'')" "LF \<in> set (''x'' @ [LF] @ ''y'')"
    and envC: "Environment ?a2 ''C'' = None"
    by (simp_all add: CreateStep_environment_def example_env_def LF_def)
  have evalA: "envsubst_Eval example_Lib ''A'' (subFunc example_Lib ?a2) = Inr ''1''"
    by (simp add: example_Lib_def subFunc_def CreateStep_environment_def example_env_def LF_def)
  have evalB: "envsubst_Eval example_Lib ''${'' (subFunc example_Lib ?b2) = Inl (Err ''missing closing brace'')"
    by (simp add: example_Lib_def)
  have unm: "json_Unmarshal example_Lib ''1'' ?a2 = (None, ?a2)"
    by (simp add: example_Lib_def)
  show ?thesis
    using environment_substitution [OF names(1) su(1) inject(1) marshal(1), of "''A''" "''1''" undefined "''1''"]
      environment_substitution [OF names(1) su(1) inject(1) marshal(1), of "''B''" "''x'' @ [LF] @ ''y''" undefined undefined]
      environment_substitution [OF names(1) su(1) inject(1) marshal(1), of "''C''" undefined undefined undefined]
      environment_substitution [OF names(2) su(2) inject(2) marshal(2), of undefined undefined "Err ''missing closing brace''" undefined]
      envA envB envC evalA evalB unm
    by (simp add: Errorf_def example_Lib_def)
qed

subsection \<open>The log streamer: auxiliary facts\<close>

lemma flushed_simps [simp]:
  "flushed [] = []"
  "flushed (e # evs) = (case traced e of None \<Rightarrow> flushed evs | Some b \<Rightarrow> b # flushed evs)"
  "flushed (evs @ evs') = flushed evs @ flushed evs'"
  by (simp_all add: flushed_def List.map_filter_def split: option.splits)

lemma uploads_simps [simp]:
  "uploads [] = []"
  "uploads (e # evs) = (case upload e of None \<Rightarrow> uploads evs | Some b \<Rightarrow> b # uploads evs)"
  "uploads (evs @ evs') = uploads evs @ uploads evs'"
  by (simp_all add: uploads_def List.map_filter_def split: option.splits)

lemma scanLoop_keep:
  assumes "\<not> 1000 < length (logs @ tok @ [LF])"
  shows "scanLoop c ctn l logs (tok # rest) = scanLoop c ctn l (logs @ tok @ [LF]) rest"
  using assms by (simp add: scanLoop.simps Let_def)

lemma scanLoop_flush:
  assumes "1000 < length (logs @ tok @ [LF])"
    and "Log_UpdateStep (Vela c) (Repo_Org (repo c)) (Repo_Name (repo c)) (Build_Number (build c))
           (Number ctn) (l\<lparr>Log_Data := Log_Data l @ logs @ tok @ [LF]\<rparr>) (world c) = ((l', None), w)"
  shows "scanLoop c ctn l logs (tok # rest)
     = (fst (scanLoop (c\<lparr>world := w\<rparr>) ctn l' [] rest),
        [Logger TraceLevel (Name ctn) (logs @ tok @ [LF]),
         Logger DebugLevel (Name ctn) ''appending logs'',
         Call_Log_UpdateStep (Repo_Org (repo c)) (Repo_Name (repo c)) (Build_Number (build c)) (Number ctn)
           (l\<lparr>Log_Data := Log_Data l @ logs @ tok @ [LF]\<rparr>)]
        @ snd (scanLoop (c\<lparr>world := w\<rparr>) ctn l' [] rest))"
  using assms by (simp add: scanLoop.simps Let_def split: prod.splits)

lemma scanLoop_fail:
  assumes "1000 < length (logs @ tok @ [LF])"
    and "Log_UpdateStep (Vela c) (Repo_Org (repo c)) (Repo_Name (repo c)) (Build_Number (build c))
           (Number ctn) (l\<lparr>Log_Data := Log_Data l @ logs @ tok @ [LF]\<rparr>) (world c) = ((l', Some e), w)"
  shows "scanLoop c ctn l logs (tok # rest)
     = (Inl (e, l', logs @ tok @ [LF], c\<lparr>world := w\<rparr>),
        [Logger TraceLevel (Name ctn) (logs @ tok @ [LF]),
         Logger DebugLevel (Name ctn) ''appending logs'',
         Call_Log_UpdateStep (Repo_Org (repo c)) (Repo_Name (repo c)) (Build_Number (build c)) (Number ctn)
           (l\<lparr>Log_Data := Log_Data l @ logs @ tok @ [LF]\<rparr>)])"
  using assms by (simp add: scanLoop.simps Let_def)

lemma IndexByte_append:
  "b \<notin> set xs \<Longrightarrow> IndexByte (xs @ b # ys) b = Some (length xs)"
  by (induction xs) auto


lemma IndexByte_None_iff:
  "IndexByte xs b = None \<longleftrightarrow> b \<notin> set xs"
  by (induction xs) auto


lemma scanner_Scan_Nil: "scanner_Scan [] = ([], None)"
  by (simp add: scanner_Scan.simps)

lemma scanner_Scan_line:
  assumes "LF \<notin> set xs" and "length xs < MaxScanTokenSize"
  shows "scanner_Scan (xs @ LF # rest) = (dropCR xs # fst (scanner_Scan rest), snd (scanner_Scan rest))"
proof -
  have "take MaxScanTokenSize (xs @ LF # rest) = xs @ LF # take (MaxScanTokenSize - Suc (length xs)) rest"
    using assms(2) by (simp add: take_Cons')
  then have "IndexByte (take MaxScanTokenSize (xs @ LF # rest)) LF = Some (length xs)"
    using assms(1) by (simp add: IndexByte_append)
  then show ?thesis
    by (subst scanner_Scan.simps) (simp add: split_beta)
qed



lemma dropCR_id: "CR \<notin> set xs \<Longrightarrow> dropCR xs = xs"
  unfolding dropCR_def by (metis last_in_set)

lemma scanner_Scan_short:
  "length rc < MaxScanTokenSize \<Longrightarrow> snd (scanner_Scan rc) = None"
proof (induction rc rule: scanner_Scan.induct)
  case (1 rc)
  show ?case
  proof (cases "rc = []")
    case True
    then show ?thesis by (simp add: scanner_Scan_Nil)
  next
    case False
    show ?thesis
    proof (cases "IndexByte (take MaxScanTokenSize rc) LF")
      case None
      then show ?thesis
        using False "1.prems" by (subst scanner_Scan.simps) simp
    next
      case (Some i)
      have "snd (scanner_Scan (drop (Suc i) rc)) = None"
        using "1.IH" [OF False Some] "1.prems" by simp
      then show ?thesis
        using False Some by (subst scanner_Scan.simps) (simp add: split_beta)
    qed
  qed
qed

text \<open>
  The scanner reaches the end of a stream in which every \<^verbatim>\<open>MaxScanTokenSize\<close> bytes in a
  row hold a line feed.
\<close>

lemma scanner_Scan_windows:
  assumes "\<And>i. i + MaxScanTokenSize \<le> length rc \<Longrightarrow> LF \<in> set (take MaxScanTokenSize (drop i rc))"
  shows "snd (scanner_Scan rc) = None"
  using assms
proof (induction rc rule: scanner_Scan.induct)
  case (1 rc)
  show ?case
  proof (cases "rc = []")
    case True
    then show ?thesis by (simp add: scanner_Scan_Nil)
  next
    case False
    show ?thesis
    proof (cases "IndexByte (take MaxScanTokenSize rc) LF")
      case None
      then have "LF \<notin> set (take MaxScanTokenSize rc)"
        by (simp add: IndexByte_None_iff)
      with "1.prems" [of 0] have "length rc < MaxScanTokenSize"
        by (cases "MaxScanTokenSize \<le> length rc") auto
      then show ?thesis
        using False None by (subst scanner_Scan.simps) simp
    next
      case (Some i)
      have "LF \<in> set (take MaxScanTokenSize (drop j (drop (Suc i) rc)))"
        if "j + MaxScanTokenSize \<le> length (drop (Suc i) rc)" for j
      proof -
        have "0 < MaxScanTokenSize"
          by (simp add: MaxScanTokenSize_def)
        with that have "j + Suc i + MaxScanTokenSize \<le> length rc"
          by simp
        from "1.prems" [OF this] show ?thesis
          by (simp add: add.commute)
      qed
      then have "snd (scanner_Scan (drop (Suc i) rc)) = None"
        using "1.IH" [OF False Some] by blast
      then show ?thesis
        using False Some by (subst scanner_Scan.simps) (simp add: split_beta)
    qed
  qed
qed

lemma scanLoop_no_warning:
  "\<forall>e\<in>set (snd (scanLoop c ctn l logs toks)). \<not> is_warning e"
  by (induction toks arbitrary: c l logs)
    (auto simp: scanLoop.simps Let_def split_beta split: option.splits)

lemma scanLoop_failed_prefix:
  "scanLoop c ctn l logs xs = (Inl r, evs) \<Longrightarrow> scanLoop c ctn l logs (xs @ ys) = (Inl r, evs)"
  by (induction xs arbitrary: c l logs evs)
    (auto simp: scanLoop.simps Let_def split: prod.splits option.splits if_splits)

lemma scanLoop_failed_last:
  "scanLoop c ctn l logs xs = (Inl (e, l', logs', c'), evs) \<Longrightarrow>
     1000 < length logs' \<and> evs \<noteq> []
     \<and> (\<exists>org name b n p. last evs = Call_Log_UpdateStep org name b n p \<and> suffix logs' (Log_Data p))"
proof (induction xs arbitrary: c l logs evs)
  case Nil
  then show ?case by simp
next
  case (Cons tok rest)
  show ?case
  proof (cases "1000 < length (logs @ tok @ [LF])")
    case False
    then show ?thesis
      using Cons.prems Cons.IH [of c l "logs @ tok @ [LF]" evs] by (simp add: scanLoop_keep)
  next
    case True
    let ?l = "l\<lparr>Log_Data := Log_Data l @ logs @ tok @ [LF]\<rparr>"
    obtain l1 err w1 where up:
      "Log_UpdateStep (Vela c) (Repo_Org (repo c)) (Repo_Name (repo c)) (Build_Number (build c))
           (Number ctn) ?l (world c) = ((l1, err), w1)"
      by (metis prod.collapse)
    show ?thesis
    proof (cases err)
      case None
      with up Cons.prems True obtain evs' where
        rest: "scanLoop (c\<lparr>world := w1\<rparr>) ctn l1 [] rest = (Inl (e, l', logs', c'), evs')"
        and evs: "evs = [Logger TraceLevel (Name ctn) (logs @ tok @ [LF]),
         Logger DebugLevel (Name ctn) ''appending logs'',
         Call_Log_UpdateStep (Repo_Org (repo c)) (Repo_Name (repo c)) (Build_Number (build c)) (Number ctn) ?l]
         @ evs'"
        by (auto simp: scanLoop_flush prod_eq_iff)
      from Cons.IH [OF rest] show ?thesis
        unfolding evs by auto
    next
      case (Some e')
      have "suffix (logs @ tok @ [LF]) (Log_Data l @ logs @ tok @ [LF])"
        by (rule suffix_appendI) simp
      with Some up Cons.prems True show ?thesis
        by (auto simp: scanLoop_fail)
    qed
  qed
qed

lemma logStreamer_final:
  assumes tail: "TailContainer (Runtime c) ctn (world c) = (Inr rc, w)"
    and loop: "scanLoop (c\<lparr>world := w\<rparr>) ctn l [] (fst (scanner_Scan rc)) = (Inr (l1, logs1, c1), evs1)"
  shows "logStreamer c ctn l
     = (snd (fst (Log_UpdateStep (Vela c1) (Repo_Org (repo c1)) (Repo_Name (repo c1)) (Build_Number (build c1))
          (Number ctn) (l1\<lparr>Log_Data := Log_Data l1 @ logs1\<rparr>) (world c1))),
        fst (fst (Log_UpdateStep (Vela c1) (Repo_Org (repo c1)) (Repo_Name (repo c1)) (Build_Number (build c1))
          (Number ctn) (l1\<lparr>Log_Data := Log_Data l1 @ logs1\<rparr>) (world c1))),
        logs1,
        c1\<lparr>world := snd (Log_UpdateStep (Vela c1) (Repo_Org (repo c1)) (Repo_Name (repo c1))
          (Build_Number (build c1)) (Number ctn) (l1\<lparr>Log_Data := Log_Data l1 @ logs1\<rparr>) (world c1))\<rparr>,
        [Logger DebugLevel (Name ctn) ''tailing container'', RuntimeCall TailContainer_op ctn] @ evs1
        @ [Logger TraceLevel (Name ctn) logs1,
           Logger DebugLevel (Name ctn) ''uploading logs'',
           Call_Log_UpdateStep (Repo_Org (repo c1)) (Repo_Name (repo c1)) (Build_Number (build c1)) (Number ctn)
             (l1\<lparr>Log_Data := Log_Data l1 @ logs1\<rparr>)])"
  using tail loop by (simp add: logStreamer_def Let_def split_beta)


text \<open>The example streams, scanned and streamed.\<close>

lemma example_scan:
  "scanner_Scan example_stream = ([replicate 1001 (CHR ''a''), ''b''], None)"
proof -
  have a: "LF \<notin> set (replicate 1001 (CHR ''a''))" "length (replicate 1001 (CHR ''a'')) < MaxScanTokenSize"
    "CR \<notin> set (replicate 1001 (CHR ''a''))"
    and b: "LF \<notin> set ''b''" "length ''b'' < MaxScanTokenSize" "CR \<notin> set ''b''"
    by (simp_all add: LF_def CR_def MaxScanTokenSize_def)
  have "scanner_Scan (''b'' @ LF # []) = ([''b''], None)"
    using scanner_Scan_line [OF b(1,2), of "[]"] dropCR_id [OF b(3)] by (simp add: scanner_Scan_Nil)
  then have "scanner_Scan (''b'' @ [LF]) = ([''b''], None)"
    by simp
  then show ?thesis
    unfolding example_stream_def
    using scanner_Scan_line [OF a(1,2), of "''b'' @ [LF]"] dropCR_id [OF a(3)] by simp
qed


lemma example_run_failing:
  "logStreamer (example_planned example_stream (\<lambda>w. False)) (example_step ''build'' False) \<lparr>Log_Data = []\<rparr>
     = (Some (Err ''upload failed''),
        \<lparr>Log_Data = replicate 1001 (CHR ''a'') @ [LF]\<rparr>,
        replicate 1001 (CHR ''a'') @ [LF],
        (example_planned example_stream (\<lambda>w. False))\<lparr>world := 1\<rparr>,
        [Logger DebugLevel ''build'' ''tailing container'',
         RuntimeCall TailContainer_op (example_step ''build'' False),
         Logger TraceLevel ''build'' (replicate 1001 (CHR ''a'') @ [LF]),
         Logger DebugLevel ''build'' ''appending logs'',
         Call_Log_UpdateStep ''octo'' ''cat'' 7 2 \<lparr>Log_Data = replicate 1001 (CHR ''a'') @ [LF]\<rparr>])"
  by (simp add: logStreamer_def example_scan scanLoop.simps Let_def example_planned_def example_client_def
      example_Runtime_def example_Vela_def example_step_def)








text \<open>A loop that has ended without a failed upload, and the two exits of the streamer after it.\<close>

lemma scanLoop_completed:
  assumes "scanLoop c ctn l logs toks = (Inr (l', logs', c'), evs)" and "length logs \<le> 1000"
  shows "length logs' \<le> 1000
     \<and> concat (flushed evs) @ logs' = logs @ concat (map (\<lambda>t. t @ [LF]) toks)
     \<and> list_all2 suffix (flushed evs) (uploads evs)
     \<and> (\<forall>b\<in>set (flushed evs). 1000 < length b
           \<and> (\<exists>b' t. b = b' @ t @ [LF] \<and> length b' \<le> 1000 \<and> t \<in> set toks))"
  using assms
proof (induction toks arbitrary: c l logs evs)
  case Nil
  then show ?case by simp
next
  case (Cons tok rest)
  let ?buf = "logs @ tok @ [LF]"
  show ?case
  proof (cases "1000 < length ?buf")
    case False
    then have len': "length ?buf \<le> 1000" by simp
    have run: "scanLoop c ctn l ?buf rest = (Inr (l', logs', c'), evs)"
      using Cons.prems(1) by (simp add: scanLoop_keep [OF False])
    from Cons.IH [OF run len']
    have props: "length logs' \<le> 1000"
        "concat (flushed evs) @ logs' = ?buf @ concat (map (\<lambda>t. t @ [LF]) rest)"
        "list_all2 suffix (flushed evs) (uploads evs)"
        "\<forall>b\<in>set (flushed evs). 1000 < length b
           \<and> (\<exists>b' t. b = b' @ t @ [LF] \<and> length b' \<le> 1000 \<and> t \<in> set rest)"
      by blast+
    have "\<forall>b\<in>set (flushed evs). 1000 < length b
           \<and> (\<exists>b' t. b = b' @ t @ [LF] \<and> length b' \<le> 1000 \<and> t \<in> set (tok # rest))"
      using props(4) by (metis list.set_intros(2))
    then show ?thesis
      using props(1-3) by simp
  next
    case True
    let ?l = "l\<lparr>Log_Data := Log_Data l @ ?buf\<rparr>"
    let ?ev = "[Logger TraceLevel (Name ctn) ?buf,
         Logger DebugLevel (Name ctn) ''appending logs'',
         Call_Log_UpdateStep (Repo_Org (repo c)) (Repo_Name (repo c)) (Build_Number (build c)) (Number ctn) ?l]"
    obtain l1 err w1 where up:
      "Log_UpdateStep (Vela c) (Repo_Org (repo c)) (Repo_Name (repo c)) (Build_Number (build c))
           (Number ctn) ?l (world c) = ((l1, err), w1)"
      by (metis prod.collapse)
    have err: "err = None"
    proof (cases err)
      case (Some e)
      with Cons.prems(1) scanLoop_fail [OF True, of c ctn l l1 e w1 rest] up show ?thesis by simp
    qed simp
    obtain evs' where
      run: "scanLoop (c\<lparr>world := w1\<rparr>) ctn l1 [] rest = (Inr (l', logs', c'), evs')"
      and evs: "evs = ?ev @ evs'"
      using Cons.prems(1) scanLoop_flush [OF True, of c ctn l l1 w1 rest] up err
      by (auto simp: prod_eq_iff)
    from Cons.IH [OF run]
    have props: "length logs' \<le> 1000"
        "concat (flushed evs') @ logs' = concat (map (\<lambda>t. t @ [LF]) rest)"
        "list_all2 suffix (flushed evs') (uploads evs')"
        "\<forall>b\<in>set (flushed evs'). 1000 < length b
           \<and> (\<exists>b' t. b = b' @ t @ [LF] \<and> length b' \<le> 1000 \<and> t \<in> set rest)"
      by simp_all
    have first: "1000 < length ?buf \<and> (\<exists>b' t. ?buf = b' @ t @ [LF] \<and> length b' \<le> 1000 \<and> t \<in> set (tok # rest))"
      using True Cons.prems(2) by (intro conjI exI [of _ logs] exI [of _ tok]) simp_all
    have others: "\<forall>b\<in>set (flushed evs'). 1000 < length b
           \<and> (\<exists>b' t. b = b' @ t @ [LF] \<and> length b' \<le> 1000 \<and> t \<in> set (tok # rest))"
      using props(4) by (metis list.set_intros(2))
    have suf: "suffix ?buf (Log_Data l @ ?buf)"
      by (rule suffix_appendI) simp
    show ?thesis
      unfolding evs using props(1-3) first others suf by simp
  qed
qed

lemma logStreamer_failed:
  assumes tail: "TailContainer (Runtime c) ctn (world c) = (Inr rc, w)"
    and loop: "scanLoop (c\<lparr>world := w\<rparr>) ctn l [] (fst (scanner_Scan rc)) = (Inl (e, l1, logs1, c1), evs1)"
  shows "logStreamer c ctn l
     = (Some e, l1, logs1, c1,
        [Logger DebugLevel (Name ctn) ''tailing container'', RuntimeCall TailContainer_op ctn] @ evs1)"
  using tail loop by (simp add: logStreamer_def)

lemma logStreamer_not_opened:
  assumes tail: "TailContainer (Runtime c) ctn (world c) = (Inl e, w)"
  shows "logStreamer c ctn l
     = (Some e, l, [], c\<lparr>world := w\<rparr>,
        [Logger DebugLevel (Name ctn) ''tailing container'', RuntimeCall TailContainer_op ctn])"
  using tail by (simp add: logStreamer_def)


lemma scanLoop_append:
  "scanLoop c ctn l logs xs = (Inr (l1, logs1, c1), evs1) \<Longrightarrow>
     scanLoop c ctn l logs (xs @ ys)
       = (fst (scanLoop c1 ctn l1 logs1 ys), evs1 @ snd (scanLoop c1 ctn l1 logs1 ys))"
  by (induction xs arbitrary: c l logs evs1)
    (auto simp: scanLoop.simps Let_def split: prod.splits option.splits if_splits)

subsection \<open>A failed upload inside the loop\<close>

text \<open>
  C1, as the code has it. Let the lines \<open>pre\<close> go through the loop without a failed
  upload, let the next line take the buffer above 1000 bytes, and let the upload of that
  flush fail. Then the log streamer returns that error at once, whatever lines \<open>ys\<close>
  follow: its last event is the failing \<^verbatim>\<open>Log.UpdateStep\<close> call, so no later line is read,
  appended or uploaded and there is no final upload; the buffer is not reset; and nothing
  is logged at warning level.
\<close>

theorem upload_failure_stops_streamer:
  assumes tail: "TailContainer (Runtime c) ctn (world c) = (Inr rc, w)"
    and toks: "fst (scanner_Scan rc) = pre @ line # ys"
    and before: "scanLoop (c\<lparr>world := w\<rparr>) ctn l [] pre = (Inr (l1, logs1, c1), evs1)"
    and over: "1000 < length (logs1 @ line @ [LF])"
    and up: "Log_UpdateStep (Vela c1) (Repo_Org (repo c1)) (Repo_Name (repo c1)) (Build_Number (build c1))
        (Number ctn) (l1\<lparr>Log_Data := Log_Data l1 @ logs1 @ line @ [LF]\<rparr>) (world c1) = ((l2, Some e), w2)"
  shows "logStreamer c ctn l
       = (Some e, l2, logs1 @ line @ [LF], c1\<lparr>world := w2\<rparr>,
          [Logger DebugLevel (Name ctn) ''tailing container'', RuntimeCall TailContainer_op ctn] @ evs1
          @ [Logger TraceLevel (Name ctn) (logs1 @ line @ [LF]),
             Logger DebugLevel (Name ctn) ''appending logs'',
             Call_Log_UpdateStep (Repo_Org (repo c1)) (Repo_Name (repo c1)) (Build_Number (build c1))
               (Number ctn) (l1\<lparr>Log_Data := Log_Data l1 @ logs1 @ line @ [LF]\<rparr>)])
     \<and> (\<forall>ev\<in>set (snd (snd (snd (snd (logStreamer c ctn l))))). \<not> is_warning ev)"
proof -
  let ?ev = "[Logger TraceLevel (Name ctn) (logs1 @ line @ [LF]),
             Logger DebugLevel (Name ctn) ''appending logs'',
             Call_Log_UpdateStep (Repo_Org (repo c1)) (Repo_Name (repo c1)) (Build_Number (build c1))
               (Number ctn) (l1\<lparr>Log_Data := Log_Data l1 @ logs1 @ line @ [LF]\<rparr>)]"
  have "scanLoop c1 ctn l1 logs1 (line # ys) = (Inl (e, l2, logs1 @ line @ [LF], c1\<lparr>world := w2\<rparr>), ?ev)"
    using over up by (rule scanLoop_fail)
  then have loop: "scanLoop (c\<lparr>world := w\<rparr>) ctn l [] (fst (scanner_Scan rc))
      = (Inl (e, l2, logs1 @ line @ [LF], c1\<lparr>world := w2\<rparr>), evs1 @ ?ev)"
    unfolding toks using scanLoop_append [OF before, of "line # ys"] by simp
  have run: "logStreamer c ctn l
       = (Some e, l2, logs1 @ line @ [LF], c1\<lparr>world := w2\<rparr>,
          [Logger DebugLevel (Name ctn) ''tailing container'', RuntimeCall TailContainer_op ctn] @ evs1 @ ?ev)"
    using tail loop by (simp add: logStreamer_def)
  have "\<forall>ev\<in>set evs1. \<not> is_warning ev"
    using scanLoop_no_warning [of "c\<lparr>world := w\<rparr>" ctn l "[]" pre] before by simp
  then have "\<forall>ev\<in>set (snd (snd (snd (snd (logStreamer c ctn l))))). \<not> is_warning ev"
    unfolding run by auto
  with run show ?thesis by simp
qed

theorem upload_failure_stops_streamer_witness:
  "TailContainer (Runtime (example_planned example_stream (\<lambda>w. False))) (example_step ''build'' False)
      (world (example_planned example_stream (\<lambda>w. False))) = (Inr example_stream, 0)
   \<and> fst (scanner_Scan example_stream) = [] @ replicate 1001 (CHR ''a'') # [''b'']
   \<and> 1000 < length ([] @ replicate 1001 (CHR ''a'') @ [LF])
   \<and> logStreamer (example_planned example_stream (\<lambda>w. False)) (example_step ''build'' False) \<lparr>Log_Data = []\<rparr>
     = (Some (Err ''upload failed''),
        \<lparr>Log_Data = replicate 1001 (CHR ''a'') @ [LF]\<rparr>,
        replicate 1001 (CHR ''a'') @ [LF],
        (example_planned example_stream (\<lambda>w. False))\<lparr>world := 1\<rparr>,
        [Logger DebugLevel ''build'' ''tailing container'',
         RuntimeCall TailContainer_op (example_step ''build'' False),
         Logger TraceLevel ''build'' (replicate 1001 (CHR ''a'') @ [LF]),
         Logger DebugLevel ''build'' ''appending logs'',
         Call_Log_UpdateStep ''octo'' ''cat'' 7 2 \<lparr>Log_Data = replicate 1001 (CHR ''a'') @ [LF]\<rparr>])"
proof -
  let ?c = "example_planned example_stream (\<lambda>w. False)"
  let ?ctn = "example_step ''build'' False"
  let ?l = "\<lparr>Log_Data = []\<rparr>"
  have tail: "TailContainer (Runtime ?c) ?ctn (world ?c) = (Inr example_stream, 0)"
    by (simp add: example_planned_def example_client_def example_Runtime_def)
  have toks: "fst (scanner_Scan example_stream) = [] @ replicate 1001 (CHR ''a'') # [''b'']"
    by (simp add: example_scan)
  have before: "scanLoop (?c\<lparr>world := 0\<rparr>) ?ctn ?l [] [] = (Inr (?l, [], ?c\<lparr>world := 0\<rparr>), [])"
    by simp
  have over: "1000 < length ([] @ replicate 1001 (CHR ''a'') @ [LF])"
    by simp
  have up: "Log_UpdateStep (Vela (?c\<lparr>world := 0\<rparr>)) (Repo_Org (repo (?c\<lparr>world := 0\<rparr>)))
        (Repo_Name (repo (?c\<lparr>world := 0\<rparr>))) (Build_Number (build (?c\<lparr>world := 0\<rparr>)))
        (Number ?ctn) (?l\<lparr>Log_Data := Log_Data ?l @ [] @ replicate 1001 (CHR ''a'') @ [LF]\<rparr>)
        (world (?c\<lparr>world := 0\<rparr>))
      = ((\<lparr>Log_Data = replicate 1001 (CHR ''a'') @ [LF]\<rparr>, Some (Err ''upload failed'')), 1)"
    by (simp add: example_planned_def example_client_def example_Vela_def)
  show ?thesis
    using upload_failure_stops_streamer [OF tail toks before over up] tail toks
    by (simp add: example_step_def example_planned_def example_client_def)
qed

text \<open>
  The claim as the specification words it fails when the first upload is rejected: the
  stream holds a first line of 1001 bytes and a second line \<^verbatim>\<open>b\<close>; the streamer stops at
  the first line, the second line reaches neither the buffer nor any payload, and no
  warning is logged.
\<close>

theorem upload_failure_stops_streamer_counterexample:
  "fst (scanner_Scan example_stream) = [replicate 1001 (CHR ''a''), ''b'']
   \<and> fst (logStreamer (example_planned example_stream (\<lambda>w. False)) (example_step ''build'' False)
        \<lparr>Log_Data = []\<rparr>) = Some (Err ''upload failed'')
   \<and> fst (snd (snd (logStreamer (example_planned example_stream (\<lambda>w. False)) (example_step ''build'' False)
        \<lparr>Log_Data = []\<rparr>))) = replicate 1001 (CHR ''a'') @ [LF]
   \<and> uploads (snd (snd (snd (snd (logStreamer (example_planned example_stream (\<lambda>w. False))
        (example_step ''build'' False) \<lparr>Log_Data = []\<rparr>))))) = [replicate 1001 (CHR ''a'') @ [LF]]
   \<and> filter is_warning (snd (snd (snd (snd (logStreamer (example_planned example_stream (\<lambda>w. False))
        (example_step ''build'' False) \<lparr>Log_Data = []\<rparr>))))) = []
   \<and> CHR ''b'' \<notin> set (replicate 1001 (CHR ''a'') @ [LF])"
  by (simp add: example_run_failing example_scan LF_def)

subsection \<open>The flush threshold\<close>

text \<open>
  C8, as the code has it. A streamer whose tail cannot be opened returns that error with
  nothing uploaded. The streamer of an opened tail runs the scan loop over the scanner's
  tokens from the stored record and an empty buffer. A line that leaves the
  buffer at 1000 bytes or fewer is only appended. A line that takes it above 1000 bytes
  has the buffer appended to the data of the current record and passed to
  \<^verbatim>\<open>Log.UpdateStep\<close>; if that call succeeds the loop goes on with the record it returned
  and an empty buffer, if it fails the loop ends with the error, the buffer as it was, and
  the streamer returns that error without a final upload. When the loop ends without a
  failed upload, the buffer that is left (at most 1000 bytes, possibly none) is appended
  to the data of the current record and passed to \<^verbatim>\<open>Log.UpdateStep\<close> in one final call,
  whose error and record are the streamer's result. In a loop that ends without a failed
  upload the buffers written out, followed by the buffer that is left, are the lines in
  order; each buffer written out is longer than 1000 bytes, was at most 1000 bytes long
  before its last line, and is the tail of the payload of its upload.
\<close>

theorem log_flush_threshold:
  "(TailContainer (Runtime c) ctn (world c) = (Inr rc, w)
      \<and> scanLoop (c\<lparr>world := w\<rparr>) ctn l [] (fst (scanner_Scan rc)) = (Inr (l1, logs1, c1), evs1) \<longrightarrow>
    logStreamer c ctn l
     = (snd (fst (Log_UpdateStep (Vela c1) (Repo_Org (repo c1)) (Repo_Name (repo c1)) (Build_Number (build c1))
          (Number ctn) (l1\<lparr>Log_Data := Log_Data l1 @ logs1\<rparr>) (world c1))),
        fst (fst (Log_UpdateStep (Vela c1) (Repo_Org (repo c1)) (Repo_Name (repo c1)) (Build_Number (build c1))
          (Number ctn) (l1\<lparr>Log_Data := Log_Data l1 @ logs1\<rparr>) (world c1))),
        logs1,
        c1\<lparr>world := snd (Log_UpdateStep (Vela c1) (Repo_Org (repo c1)) (Repo_Name (repo c1))
          (Build_Number (build c1)) (Number ctn) (l1\<lparr>Log_Data := Log_Data l1 @ logs1\<rparr>) (world c1))\<rparr>,
        [Logger DebugLevel (Name ctn) ''tailing container'', RuntimeCall TailContainer_op ctn] @ evs1
        @ [Logger TraceLevel (Name ctn) logs1,
           Logger DebugLevel (Name ctn) ''uploading logs'',
           Call_Log_UpdateStep (Repo_Org (repo c1)) (Repo_Name (repo c1)) (Build_Number (build c1)) (Number ctn)
             (l1\<lparr>Log_Data := Log_Data l1 @ logs1\<rparr>)]))
   \<and> (TailContainer (Runtime c) ctn (world c) = (Inr rc, w)
      \<and> scanLoop (c\<lparr>world := w\<rparr>) ctn l [] (fst (scanner_Scan rc)) = (Inl (e, l1, logs1, c1), evs1) \<longrightarrow>
    logStreamer c ctn l
     = (Some e, l1, logs1, c1,
        [Logger DebugLevel (Name ctn) ''tailing container'', RuntimeCall TailContainer_op ctn] @ evs1))
   \<and> (TailContainer (Runtime c) ctn (world c) = (Inl e, w) \<longrightarrow>
    logStreamer c ctn l
     = (Some e, l, [], c\<lparr>world := w\<rparr>,
        [Logger DebugLevel (Name ctn) ''tailing container'', RuntimeCall TailContainer_op ctn]))
   \<and> scanLoop c0 ctn l0 logs0 [] = (Inr (l0, logs0, c0), [])
   \<and> (\<not> 1000 < length (logs0 @ tok @ [LF]) \<longrightarrow>
        scanLoop c0 ctn l0 logs0 (tok # rest) = scanLoop c0 ctn l0 (logs0 @ tok @ [LF]) rest)
   \<and> (1000 < length (logs0 @ tok @ [LF])
        \<and> Log_UpdateStep (Vela c0) (Repo_Org (repo c0)) (Repo_Name (repo c0)) (Build_Number (build c0))
             (Number ctn) (l0\<lparr>Log_Data := Log_Data l0 @ logs0 @ tok @ [LF]\<rparr>) (world c0) = ((l2, None), w2) \<longrightarrow>
        scanLoop c0 ctn l0 logs0 (tok # rest)
          = (fst (scanLoop (c0\<lparr>world := w2\<rparr>) ctn l2 [] rest),
             [Logger TraceLevel (Name ctn) (logs0 @ tok @ [LF]),
              Logger DebugLevel (Name ctn) ''appending logs'',
              Call_Log_UpdateStep (Repo_Org (repo c0)) (Repo_Name (repo c0)) (Build_Number (build c0))
                (Number ctn) (l0\<lparr>Log_Data := Log_Data l0 @ logs0 @ tok @ [LF]\<rparr>)]
             @ snd (scanLoop (c0\<lparr>world := w2\<rparr>) ctn l2 [] rest)))
   \<and> (1000 < length (logs0 @ tok @ [LF])
        \<and> Log_UpdateStep (Vela c0) (Repo_Org (repo c0)) (Repo_Name (repo c0)) (Build_Number (build c0))
             (Number ctn) (l0\<lparr>Log_Data := Log_Data l0 @ logs0 @ tok @ [LF]\<rparr>) (world c0) = ((l2, Some e), w2) \<longrightarrow>
        scanLoop c0 ctn l0 logs0 (tok # rest)
          = (Inl (e, l2, logs0 @ tok @ [LF], c0\<lparr>world := w2\<rparr>),
             [Logger TraceLevel (Name ctn) (logs0 @ tok @ [LF]),
              Logger DebugLevel (Name ctn) ''appending logs'',
              Call_Log_UpdateStep (Repo_Org (repo c0)) (Repo_Name (repo c0)) (Build_Number (build c0))
                (Number ctn) (l0\<lparr>Log_Data := Log_Data l0 @ logs0 @ tok @ [LF]\<rparr>)]))
   \<and> (scanLoop c0 ctn l0 logs0 toks = (Inr (l3, logs3, c3), evs3) \<and> length logs0 \<le> 1000 \<longrightarrow>
        length logs3 \<le> 1000
        \<and> concat (flushed evs3) @ logs3 = logs0 @ concat (map (\<lambda>t. t @ [LF]) toks)
        \<and> list_all2 suffix (flushed evs3) (uploads evs3)
        \<and> (\<forall>b\<in>set (flushed evs3). 1000 < length b
              \<and> (\<exists>b' t. b = b' @ t @ [LF] \<and> length b' \<le> 1000 \<and> t \<in> set toks)))"
  apply (intro conjI)
  subgoal by (intro impI, elim conjE) (rule logStreamer_final)
  subgoal by (intro impI, elim conjE) (rule logStreamer_failed)
  subgoal by (intro impI) (rule logStreamer_not_opened)
  subgoal by simp
  subgoal by (intro impI) (rule scanLoop_keep)
  subgoal by (intro impI, elim conjE) (rule scanLoop_flush)
  subgoal by (intro impI, elim conjE) (rule scanLoop_fail)
  subgoal by (intro impI, elim conjE) (rule scanLoop_completed)
  done

theorem log_flush_threshold_witness:
  "TailContainer (Runtime (example_planned example_stream (\<lambda>w. True))) (example_step ''build'' False)
      (world (example_planned example_stream (\<lambda>w. True))) = (Inr example_stream, 0)
   \<and> fst (scanner_Scan example_stream) = [replicate 1001 (CHR ''a''), ''b'']
   \<and> 1000 < length ([] @ replicate 1001 (CHR ''a'') @ [LF])
   \<and> \<not> 1000 < length ([] @ ''b'' @ [LF])
   \<and> logStreamer (example_planned example_stream (\<lambda>w. True)) (example_step ''build'' False) \<lparr>Log_Data = []\<rparr>
     = (None,
        \<lparr>Log_Data = replicate 1001 (CHR ''a'') @ LF # ''b'' @ [LF]\<rparr>,
        ''b'' @ [LF],
        (example_planned example_stream (\<lambda>w. True))\<lparr>world := 2\<rparr>,
        [Logger DebugLevel ''build'' ''tailing container'',
         RuntimeCall TailContainer_op (example_step ''build'' False),
         Logger TraceLevel ''build'' (replicate 1001 (CHR ''a'') @ [LF]),
         Logger DebugLevel ''build'' ''appending logs'',
         Call_Log_UpdateStep ''octo'' ''cat'' 7 2 \<lparr>Log_Data = replicate 1001 (CHR ''a'') @ [LF]\<rparr>,
         Logger TraceLevel ''build'' (''b'' @ [LF]),
         Logger DebugLevel ''build'' ''uploading logs'',
         Call_Log_UpdateStep ''octo'' ''cat'' 7 2 \<lparr>Log_Data = replicate 1001 (CHR ''a'') @ LF # ''b'' @ [LF]\<rparr>])"
proof -
  let ?c = "example_planned example_stream (\<lambda>w. True)"
  let ?ctn = "example_step ''build'' False"
  let ?l = "\<lparr>Log_Data = []\<rparr>"
  let ?l1 = "\<lparr>Log_Data = replicate 1001 (CHR ''a'') @ [LF]\<rparr>"
  let ?ev = "[Logger TraceLevel ''build'' (replicate 1001 (CHR ''a'') @ [LF]),
         Logger DebugLevel ''build'' ''appending logs'',
         Call_Log_UpdateStep ''octo'' ''cat'' 7 2 ?l1]"
  have tail: "TailContainer (Runtime ?c) ?ctn (world ?c) = (Inr example_stream, 0)"
    by (simp add: example_planned_def example_client_def example_Runtime_def)
  have toks: "fst (scanner_Scan example_stream) = [replicate 1001 (CHR ''a''), ''b'']"
    by (simp add: example_scan)
  have loop: "scanLoop (?c\<lparr>world := 0\<rparr>) ?ctn ?l [] (fst (scanner_Scan example_stream))
      = (Inr (?l1, ''b'' @ [LF], ?c\<lparr>world := 1\<rparr>), ?ev)"
    by (simp add: toks scanLoop.simps Let_def example_planned_def example_client_def example_Vela_def
        example_step_def)
  note run = log_flush_threshold [THEN conjunct1, THEN mp, OF conjI, OF tail loop]
  have "logStreamer ?c ?ctn ?l
     = (None, \<lparr>Log_Data = replicate 1001 (CHR ''a'') @ LF # ''b'' @ [LF]\<rparr>, ''b'' @ [LF], ?c\<lparr>world := 2\<rparr>,
        [Logger DebugLevel ''build'' ''tailing container'', RuntimeCall TailContainer_op ?ctn] @ ?ev
        @ [Logger TraceLevel ''build'' (''b'' @ [LF]),
           Logger DebugLevel ''build'' ''uploading logs'',
           Call_Log_UpdateStep ''octo'' ''cat'' 7 2 \<lparr>Log_Data = replicate 1001 (CHR ''a'') @ LF # ''b'' @ [LF]\<rparr>])"
    unfolding run
    by (simp add: example_planned_def example_client_def example_Vela_def example_step_def)
  with tail toks show ?thesis by simp
qed

text \<open>
  The claim as the specification words it fails when an upload is rejected: the first
  line takes the buffer to 1002 bytes and is uploaded, but the buffer is not reset, and
  although the stream then closes there is no final call: one upload in all.
\<close>

theorem log_flush_threshold_counterexample:
  "fst (scanner_Scan example_stream) = [replicate 1001 (CHR ''a''), ''b'']
   \<and> 1000 < length (replicate 1001 (CHR ''a'') @ [LF])
   \<and> fst (snd (snd (logStreamer (example_planned example_stream (\<lambda>w. False)) (example_step ''build'' False)
        \<lparr>Log_Data = []\<rparr>))) = replicate 1001 (CHR ''a'') @ [LF]
   \<and> fst (snd (snd (logStreamer (example_planned example_stream (\<lambda>w. False)) (example_step ''build'' False)
        \<lparr>Log_Data = []\<rparr>))) \<noteq> []
   \<and> length (uploads (snd (snd (snd (snd (logStreamer (example_planned example_stream (\<lambda>w. False))
        (example_step ''build'' False) \<lparr>Log_Data = []\<rparr>)))))) = 1"
  by (simp add: example_run_failing example_scan)

subsection \<open>Delivery of the stream\<close>




end
